theory Spec2Isabelle
  imports Main
begin

section \<open>The data-access layer of the dashboard (src/lib/api.ts)\<close>

text \<open>
  The layer turns typed requests into calls of the browser's \<^verbatim>\<open>fetch\<close> and turns
  what comes back into a value or a thrown \<^verbatim>\<open>ApiError\<close>. The functions of
  \<^verbatim>\<open>api.ts\<close> are embedded one by one; the browser (the network, the response
  object, the timer) is an explicit parameter of the model.
\<close>

subsection \<open>Strings\<close>

definition digit :: "nat \<Rightarrow> char" where
  "digit d = ''0123456789'' ! d"

text \<open>The decimal digits of a natural number, without leading zeros.\<close>

function string_of_nat :: "nat \<Rightarrow> string" where
  "string_of_nat n =
     (if n < 10 then [digit n] else string_of_nat (n div 10) @ [digit (n mod 10)])"
  by pat_completeness auto
termination
  by (relation "measure (\<lambda>n. n)") auto

declare string_of_nat.simps [simp del]

primrec startsWith :: "string \<Rightarrow> string \<Rightarrow> bool" where
  "startsWith s [] = True"
| "startsWith s (c # cs) = (case s of [] \<Rightarrow> False | d # ds \<Rightarrow> d = c \<and> startsWith ds cs)"

text \<open>\<^verbatim>\<open>String.prototype.includes\<close>: the search string occurs somewhere.\<close>

primrec includes_str :: "string \<Rightarrow> string \<Rightarrow> bool" where
  "includes_str [] sub = (sub = [])"
| "includes_str (c # cs) sub = (startsWith (c # cs) sub \<or> includes_str cs sub)"

subsection \<open>Numbers\<close>

text \<open>
  A JavaScript number is \<^verbatim>\<open>NaN\<close>, an infinity (\<open>True\<close> for the negative one) or a
  finite number. A finite number is given by a decimal that denotes it: a sign
  (\<open>True\<close> for minus), the digits \<open>s\<close> as a natural number, and the position \<open>n\<close> of the
  decimal point, counted from the front of the digits of \<open>s\<close> without its trailing
  zeros: 123.456 is \<open>Finite False 123456 3\<close>, 0.001 is \<open>Finite False 1 (-2)\<close>, 1e21 is
  \<open>Finite False 1 22\<close>. Both zeros have \<open>s = 0\<close>. The digits a JavaScript engine works
  with are the shortest that denote the number.
\<close>

datatype js_number = NaN | Infinity bool | Finite bool nat int

function strip_zeros :: "nat \<Rightarrow> nat" where
  "strip_zeros s = (if s \<noteq> 0 \<and> s mod 10 = 0 then strip_zeros (s div 10) else s)"
  by pat_completeness auto
termination
  by (relation "measure (\<lambda>s. s)") auto

declare strip_zeros.simps [simp del]

text \<open>
  \<^verbatim>\<open>Number::toString\<close> of ECMAScript for a positive finite number with digits \<open>s\<close>
  (\<open>k\<close> of them) and point position \<open>n\<close>: the digits padded with zeros when
  \<open>k \<le> n \<le> 21\<close>; with a decimal point inside when \<open>0 < n \<le> 21\<close>; after \<^verbatim>\<open>0.\<close> and
  zeros when \<open>-6 < n \<le> 0\<close>; and otherwise with an exponent, as in \<^verbatim>\<open>1e+21\<close> and
  \<^verbatim>\<open>1.5e-7\<close>.
\<close>

definition finite_toString :: "nat \<Rightarrow> int \<Rightarrow> string" where
  "finite_toString s n =
     (let ds = string_of_nat s; k = int (length ds) in
      if k \<le> n \<and> n \<le> 21 then ds @ replicate (nat (n - k)) CHR ''0''
      else if 0 < n \<and> n \<le> 21 then take (nat n) ds @ ''.'' @ drop (nat n) ds
      else if - 6 < n \<and> n \<le> 0 then ''0.'' @ replicate (nat (- n)) CHR ''0'' @ ds
      else (if k = 1 then ds else take 1 ds @ ''.'' @ drop 1 ds)
             @ ''e'' @ (if n - 1 < 0 then ''-'' else ''+'') @ string_of_nat (nat \<bar>n - 1\<bar>))"

text \<open>\<^verbatim>\<open>Number.prototype.toString\<close>, as in \<^verbatim>\<open>instanceIndex.toString()\<close>.\<close>

fun number_toString :: "js_number \<Rightarrow> string" where
  "number_toString NaN = ''NaN''"
| "number_toString (Infinity negative) = (if negative then ''-Infinity'' else ''Infinity'')"
| "number_toString (Finite negative s n) =
     (if s = 0 then ''0''
      else (if negative then ''-'' else []) @ finite_toString (strip_zeros s) n)"

subsection \<open>JavaScript values\<close>

text \<open>A decoded JSON body. An object is the list of its own properties.\<close>

datatype json =
    JNull
  | JBool bool
  | JNum js_number
  | JStr string
  | JArr "json list"
  | JObj "(string \<times> json) list"

text \<open>An error object of the platform: what \<^verbatim>\<open>error.name\<close> and
  \<^verbatim>\<open>error.message\<close> read, and the rest of it (the stack trace).\<close>

record js_error =
  e_name :: string
  e_message :: string
  e_stack :: string

text \<open>\<^verbatim>\<open>class ApiError extends Error\<close>: \<^verbatim>\<open>message\<close>, \<^verbatim>\<open>status\<close> and the optional
  \<^verbatim>\<open>response\<close>; its \<^verbatim>\<open>name\<close> is always \<^verbatim>\<open>'ApiError'\<close>.\<close>

record api_error =
  message :: string
  status :: nat
  response :: "json option"

definition new_ApiError :: "string \<Rightarrow> nat \<Rightarrow> json option \<Rightarrow> api_error" where
  "new_ApiError m s r = \<lparr>message = m, status = s, response = r\<rparr>"

text \<open>A thrown value: an \<^verbatim>\<open>ApiError\<close> (\<^verbatim>\<open>error instanceof ApiError\<close>) or any
  other error object.\<close>

datatype thrown = ApiErr api_error | JsError js_error

text \<open>The \<^verbatim>\<open>TypeError\<close> of converting to a string an object that has no callable
  \<^verbatim>\<open>toString\<close> (the text is the engine's; it does not mention \<^verbatim>\<open>fetch\<close>).\<close>

definition cannot_convert_error :: js_error where
  "cannot_convert_error =
     \<lparr>e_name = ''TypeError'',
      e_message = ''Cannot convert object to primitive value'',
      e_stack = []\<rparr>"

text \<open>\<^verbatim>\<open>Array.prototype.join\<close> with a comma on elements already converted, in
  order: the first conversion that throws ends it.\<close>

primrec join_elements :: "(js_error + string) list \<Rightarrow> js_error + string" where
  "join_elements [] = Inr []"
| "join_elements (x # xs) =
     (case x of
        Inl e \<Rightarrow> Inl e
      | Inr str \<Rightarrow>
          (case join_elements xs of
             Inl e \<Rightarrow> Inl e
           | Inr rest \<Rightarrow> Inr (if xs = [] then str else str @ '','' @ rest)))"

text \<open>
  The conversion of a decoded value to a string, as \<^verbatim>\<open>super(message)\<close> does in the
  \<^verbatim>\<open>Error\<close> constructor: \<open>Inl\<close> the \<^verbatim>\<open>TypeError\<close> it throws. An array joins its
  elements with commas, \<^verbatim>\<open>null\<close> elements giving nothing. An object gives
  \<^verbatim>\<open>[object Object]\<close> through the \<^verbatim>\<open>toString\<close> it inherits; an own property
  \<^verbatim>\<open>toString\<close>, which in a decoded body is never a function, hides the inherited one,
  \<^verbatim>\<open>valueOf\<close> does not give a primitive, and the conversion throws.
\<close>

fun toString :: "json \<Rightarrow> js_error + string" where
  "toString JNull = Inr ''null''"
| "toString (JBool b) = Inr (if b then ''true'' else ''false'')"
| "toString (JNum x) = Inr (number_toString x)"
| "toString (JStr s) = Inr s"
| "toString (JArr xs) =
     join_elements (map (\<lambda>x. if x = JNull then Inr [] else toString x) xs)"
| "toString (JObj kvs) =
     (if map_of kvs ''toString'' = None then Inr ''[object Object]''
      else Inl cannot_convert_error)"

text \<open>What \<^verbatim>\<open>||\<close> tests: \<^verbatim>\<open>null\<close>, \<^verbatim>\<open>false\<close>, zero, \<^verbatim>\<open>NaN\<close> and the empty string
  are falsy, every other decoded value is truthy.\<close>

fun truthy :: "json \<Rightarrow> bool" where
  "truthy JNull = False"
| "truthy (JBool b) = b"
| "truthy (JNum NaN) = False"
| "truthy (JNum (Infinity negative)) = True"
| "truthy (JNum (Finite negative s n)) = (s \<noteq> 0)"
| "truthy (JStr s) = (s \<noteq> [])"
| "truthy (JArr xs) = True"
| "truthy (JObj kvs) = True"

text \<open>The \<^verbatim>\<open>TypeError\<close> of reading a property of \<^verbatim>\<open>null\<close> (the text is the
  engine's; no engine's text for it mentions \<^verbatim>\<open>fetch\<close>).\<close>

definition null_property_error :: js_error where
  "null_property_error =
     \<lparr>e_name = ''TypeError'',
      e_message = ''Cannot read properties of null (reading 'message')'',
      e_stack = []\<rparr>"

text \<open>\<^verbatim>\<open>errorData.message\<close>: the property of an object when it has one, \<^verbatim>\<open>undefined\<close>
  (\<open>None\<close>) on an object without it and on a number, string, boolean or array, and a
  thrown \<^verbatim>\<open>TypeError\<close> on \<^verbatim>\<open>null\<close>.\<close>

fun get_message :: "json \<Rightarrow> js_error + json option" where
  "get_message JNull = Inl null_property_error"
| "get_message (JObj kvs) = Inr (map_of kvs ''message'')"
| "get_message v = Inr None"

text \<open>\<^verbatim>\<open>errorData.message || fallback\<close>, converted to a string by \<^verbatim>\<open>super(message)\<close>:
  \<open>Inl\<close> when the conversion throws.\<close>

definition message_or :: "json option \<Rightarrow> string \<Rightarrow> js_error + string" where
  "message_or m fallback =
     (case m of
        None \<Rightarrow> Inr fallback
      | Some v \<Rightarrow> if truthy v then toString v else Inr fallback)"

subsection \<open>The browser: responses, requests and the network\<close>

text \<open>
  A received response: its status line, and what its \<^verbatim>\<open>json()\<close> and \<^verbatim>\<open>blob()\<close>
  promises settle to (\<open>Inl\<close> a rejection: a \<^verbatim>\<open>SyntaxError\<close> when the body is not
  JSON). Reading the body is taken to settle.
\<close>

record http_response =
  r_status :: nat
  r_statusText :: string
  r_json :: "js_error + json"
  r_blob :: "js_error + string"

text \<open>\<^verbatim>\<open>response.ok\<close>: the status is in the range 200 to 299.\<close>

definition ok :: "http_response \<Rightarrow> bool" where
  "ok r = (200 \<le> r_status r \<and> r_status r \<le> 299)"

datatype file_obj = File string string

datatype form_value = FileEntry file_obj | StringEntry string

type_synonym form_data = "(string \<times> form_value) list"

text \<open>\<^verbatim>\<open>formData.append(name, value)\<close>: a new entry after the ones there.\<close>

definition formData_append :: "form_data \<Rightarrow> string \<Rightarrow> form_value \<Rightarrow> form_data" where
  "formData_append formData k v = formData @ [(k, v)]"

text \<open>
  The second argument of \<^verbatim>\<open>fetch\<close>. \<open>http_method = None\<close> is the default (GET). Headers are
  read with \<open>map_of\<close>, so the entries of a spread come before the ones they override.
  \<open>signal = Some d\<close> is the signal of an \<^verbatim>\<open>AbortController\<close> whose \<^verbatim>\<open>abort()\<close> a timer
  calls \<open>d\<close> milliseconds after the call; \<open>None\<close> is a call without a signal.
\<close>

record request =
  url :: string
  http_method :: "string option"
  headers :: "(string \<times> string) list"
  body :: "form_data option"
  signal :: "nat option"

text \<open>What the network does with a request when nobody aborts it: a response or a
  failure after so many milliseconds, or nothing ever.\<close>

datatype reply = Responds nat http_response | Rejects nat js_error | Pending

text \<open>The \<^verbatim>\<open>DOMException\<close> an aborted \<^verbatim>\<open>fetch\<close> rejects with.\<close>

definition AbortError :: js_error where
  "AbortError =
     \<lparr>e_name = ''AbortError'', e_message = ''signal is aborted without reason'', e_stack = []\<rparr>"

text \<open>
  \<^verbatim>\<open>await fetch(url, init)\<close>: \<open>None\<close> when the promise never settles, \<open>Inl\<close> a rejection,
  \<open>Inr\<close> the response. With a signal, what has not happened before the timer fires is
  aborted; \<^verbatim>\<open>clearTimeout\<close> after the response disarms the timer.
\<close>

definition fetch :: "(request \<Rightarrow> reply) \<Rightarrow> request \<Rightarrow> (js_error + http_response) option" where
  "fetch net req =
     (case signal req of
        None \<Rightarrow>
          (case net req of
             Responds t r \<Rightarrow> Some (Inr r)
           | Rejects t e \<Rightarrow> Some (Inl e)
           | Pending \<Rightarrow> None)
      | Some d \<Rightarrow>
          (case net req of
             Responds t r \<Rightarrow> if t < d then Some (Inr r) else Some (Inl AbortError)
           | Rejects t e \<Rightarrow> if t < d then Some (Inl e) else Some (Inl AbortError)
           | Pending \<Rightarrow> Some (Inl AbortError)))"

text \<open>The environment of the module: the build-time variable and the network.\<close>

record env =
  VITE_API_BASE_URL :: "string option"
  network :: "request \<Rightarrow> reply"

definition API_BASE_URL :: "env \<Rightarrow> string" where
  "API_BASE_URL ev =
     (case VITE_API_BASE_URL ev of
        None \<Rightarrow> ''http://localhost:8000''
      | Some s \<Rightarrow> if s = [] then ''http://localhost:8000'' else s)"

subsection \<open>The request executors\<close>

text \<open>The \<^verbatim>\<open>options\<close> of \<^verbatim>\<open>apiRequest\<close>; its default \<^verbatim>\<open>{}\<close> is \<open>no_options\<close>.\<close>

record request_init =
  ri_method :: "string option"
  ri_headers :: "(string \<times> string) list"
  ri_body :: "form_data option"

definition no_options :: request_init where
  "no_options = \<lparr>ri_method = None, ri_headers = [], ri_body = None\<rparr>"

text \<open>\<^verbatim>\<open>await response.json().catch(() => ({}))\<close>.\<close>

definition errorData :: "http_response \<Rightarrow> json" where
  "errorData r = (case r_json r of Inl e \<Rightarrow> JObj [] | Inr d \<Rightarrow> d)"

text \<open>The \<^verbatim>\<open>if (!response.ok) { ... throw new ApiError(...) }\<close> block, the same in
  the three functions that call \<^verbatim>\<open>fetch\<close>: the value it throws, which is the
  \<^verbatim>\<open>ApiError\<close> unless reading \<^verbatim>\<open>errorData.message\<close> or constructing the error
  throws first.\<close>

definition throw_not_ok :: "http_response \<Rightarrow> thrown" where
  "throw_not_ok r =
     (case get_message (errorData r) of
        Inl e \<Rightarrow> JsError e
      | Inr m \<Rightarrow>
          (case message_or m (''HTTP '' @ string_of_nat (r_status r) @ '': '' @ r_statusText r) of
             Inl e \<Rightarrow> JsError e
           | Inr msg \<Rightarrow> ApiErr (new_ApiError msg (r_status r) (Some (errorData r)))))"

text \<open>The \<^verbatim>\<open>try\<close> block of \<^verbatim>\<open>apiRequest\<close>: \<open>Inl\<close> what it throws, \<open>Inr\<close> what it
  returns.\<close>

definition apiRequest_request :: "env \<Rightarrow> string \<Rightarrow> request_init \<Rightarrow> request" where
  "apiRequest_request ev endpoint options =
     \<lparr>url = API_BASE_URL ev @ endpoint,
      http_method = ri_method options,
      headers = ri_headers options @ [(''Content-Type'', ''application/json'')],
      body = ri_body options,
      signal = Some 10000\<rparr>"

definition apiRequest_try :: "env \<Rightarrow> string \<Rightarrow> request_init \<Rightarrow> (thrown + json) option" where
  "apiRequest_try ev endpoint options =
     (case fetch (network ev) (apiRequest_request ev endpoint options) of
        None \<Rightarrow> None
      | Some (Inl e) \<Rightarrow> Some (Inl (JsError e))
      | Some (Inr r) \<Rightarrow>
          if \<not> ok r then Some (Inl (throw_not_ok r))
          else (case r_json r of
                  Inl e \<Rightarrow> Some (Inl (JsError e))
                | Inr v \<Rightarrow> Some (Inr v)))"

text \<open>The \<^verbatim>\<open>catch\<close> block of \<^verbatim>\<open>apiRequest\<close>: the value it throws.\<close>

definition apiRequest_catch :: "thrown \<Rightarrow> thrown" where
  "apiRequest_catch error =
     (case error of
        ApiErr a \<Rightarrow> ApiErr a
      | JsError e \<Rightarrow>
          if e_name e = ''AbortError''
          then ApiErr (new_ApiError ''Request timeout - server may be unavailable'' 0 None)
          else if e_name e = ''TypeError'' \<and> includes_str (e_message e) ''fetch''
          then ApiErr (new_ApiError ''Network error - cannot connect to server'' 0 None)
          else ApiErr (new_ApiError ''Network error or server unavailable'' 0 None))"

definition apiRequest :: "env \<Rightarrow> string \<Rightarrow> request_init \<Rightarrow> (thrown + json) option" where
  "apiRequest ev endpoint options =
     (case apiRequest_try ev endpoint options of
        None \<Rightarrow> None
      | Some (Inl error) \<Rightarrow> Some (Inl (apiRequest_catch error))
      | Some (Inr v) \<Rightarrow> Some (Inr v))"

definition apiFormRequest_request :: "env \<Rightarrow> string \<Rightarrow> form_data \<Rightarrow> request" where
  "apiFormRequest_request ev endpoint formData =
     \<lparr>url = API_BASE_URL ev @ endpoint,
      http_method = Some ''POST'',
      headers = [],
      body = Some formData,
      signal = Some 30000\<rparr>"

definition apiFormRequest_try :: "env \<Rightarrow> string \<Rightarrow> form_data \<Rightarrow> (thrown + json) option" where
  "apiFormRequest_try ev endpoint formData =
     (case fetch (network ev) (apiFormRequest_request ev endpoint formData) of
        None \<Rightarrow> None
      | Some (Inl e) \<Rightarrow> Some (Inl (JsError e))
      | Some (Inr r) \<Rightarrow>
          if \<not> ok r then Some (Inl (throw_not_ok r))
          else (case r_json r of
                  Inl e \<Rightarrow> Some (Inl (JsError e))
                | Inr v \<Rightarrow> Some (Inr v)))"

definition apiFormRequest_catch :: "thrown \<Rightarrow> thrown" where
  "apiFormRequest_catch error =
     (case error of
        ApiErr a \<Rightarrow> ApiErr a
      | JsError e \<Rightarrow>
          if e_name e = ''AbortError''
          then ApiErr (new_ApiError ''Request timeout - server may be unavailable'' 0 None)
          else if e_name e = ''TypeError'' \<and> includes_str (e_message e) ''fetch''
          then ApiErr (new_ApiError ''Network error - cannot connect to server'' 0 None)
          else ApiErr (new_ApiError ''Network error or server unavailable'' 0 None))"

definition apiFormRequest :: "env \<Rightarrow> string \<Rightarrow> form_data \<Rightarrow> (thrown + json) option" where
  "apiFormRequest ev endpoint formData =
     (case apiFormRequest_try ev endpoint formData of
        None \<Rightarrow> None
      | Some (Inl error) \<Rightarrow> Some (Inl (apiFormRequest_catch error))
      | Some (Inr v) \<Rightarrow> Some (Inr v))"

subsection \<open>The endpoint catalog\<close>

definition getSummary :: "env \<Rightarrow> (thrown + json) option" where
  "getSummary ev = apiRequest ev ''/api/v1/dashboard/summary'' no_options"

definition getModelRisk :: "env \<Rightarrow> (thrown + json) option" where
  "getModelRisk ev = apiRequest ev ''/api/v1/dashboard/model_risk'' no_options"

definition getComplianceTrend :: "env \<Rightarrow> (thrown + json) option" where
  "getComplianceTrend ev = apiRequest ev ''/api/v1/dashboard/compliance_trend'' no_options"

text \<open>The form \<^verbatim>\<open>biasDetectionApi.detect\<close> builds: \<^verbatim>\<open>new FormData()\<close> and seven
  \<^verbatim>\<open>append\<close> calls.\<close>

definition detect_formData ::
  "file_obj \<Rightarrow> string \<Rightarrow> string \<Rightarrow> string \<Rightarrow> string \<Rightarrow> string \<Rightarrow> string \<Rightarrow> form_data" where
  "detect_formData file modelName modelVersion targetVariable sensitiveAttribute
       privilegedGroup unprivilegedGroup =
     (let formData = [];
          formData = formData_append formData ''file'' (FileEntry file);
          formData = formData_append formData ''model_name'' (StringEntry modelName);
          formData = formData_append formData ''model_version'' (StringEntry modelVersion);
          formData = formData_append formData ''target_variable'' (StringEntry targetVariable);
          formData = formData_append formData ''sensitive_attribute'' (StringEntry sensitiveAttribute);
          formData = formData_append formData ''privileged_group'' (StringEntry privilegedGroup);
          formData = formData_append formData ''unprivileged_group'' (StringEntry unprivilegedGroup)
      in formData)"

definition detect ::
  "env \<Rightarrow> file_obj \<Rightarrow> string \<Rightarrow> string \<Rightarrow> string \<Rightarrow> string \<Rightarrow> string \<Rightarrow> string
     \<Rightarrow> (thrown + json) option" where
  "detect ev file modelName modelVersion targetVariable sensitiveAttribute
       privilegedGroup unprivilegedGroup =
     apiFormRequest ev ''/api/v1/bias/detect''
       (detect_formData file modelName modelVersion targetVariable sensitiveAttribute
          privilegedGroup unprivilegedGroup)"



text \<open>The form of \<^verbatim>\<open>complianceApi.generateReport\<close>; \<open>role = None\<close> is the argument left
  out, which the default \<^verbatim>\<open>'executive'\<close> replaces.\<close>

definition generateReport_formData ::
  "file_obj \<Rightarrow> string \<Rightarrow> string \<Rightarrow> string \<Rightarrow> string \<Rightarrow> string \<Rightarrow> string \<Rightarrow> string option
     \<Rightarrow> form_data" where
  "generateReport_formData file modelName modelVersion targetVariable sensitiveAttribute
       privilegedGroup unprivilegedGroup role =
     (let formData = [];
          formData = formData_append formData ''file'' (FileEntry file);
          formData = formData_append formData ''model_name'' (StringEntry modelName);
          formData = formData_append formData ''model_version'' (StringEntry modelVersion);
          formData = formData_append formData ''target_variable'' (StringEntry targetVariable);
          formData = formData_append formData ''sensitive_attribute'' (StringEntry sensitiveAttribute);
          formData = formData_append formData ''privileged_group'' (StringEntry privilegedGroup);
          formData = formData_append formData ''unprivileged_group'' (StringEntry unprivilegedGroup);
          formData = formData_append formData ''role''
                       (StringEntry (case role of None \<Rightarrow> ''executive'' | Some x \<Rightarrow> x))
      in formData)"

text \<open>
  \<^verbatim>\<open>complianceApi.generateReport\<close> calls \<^verbatim>\<open>fetch\<close> itself: no \<^verbatim>\<open>try\<close>, no
  \<^verbatim>\<open>AbortController\<close>. What \<^verbatim>\<open>fetch\<close> or \<^verbatim>\<open>blob()\<close> rejects with is what the caller
  gets, and a \<^verbatim>\<open>fetch\<close> that never settles leaves the call pending (\<open>None\<close>).
\<close>

definition generateReport_request :: "env \<Rightarrow> form_data \<Rightarrow> request" where
  "generateReport_request ev formData =
     \<lparr>url = API_BASE_URL ev @ ''/api/v1/compliance/generate'',
      http_method = Some ''POST'',
      headers = [],
      body = Some formData,
      signal = None\<rparr>"

definition generateReport ::
  "env \<Rightarrow> file_obj \<Rightarrow> string \<Rightarrow> string \<Rightarrow> string \<Rightarrow> string \<Rightarrow> string \<Rightarrow> string
     \<Rightarrow> string option \<Rightarrow> (thrown + string) option" where
  "generateReport ev file modelName modelVersion targetVariable sensitiveAttribute
       privilegedGroup unprivilegedGroup role =
     (case fetch (network ev)
             (generateReport_request ev
                (generateReport_formData file modelName modelVersion targetVariable
                   sensitiveAttribute privilegedGroup unprivilegedGroup role)) of
        None \<Rightarrow> None
      | Some (Inl e) \<Rightarrow> Some (Inl (JsError e))
      | Some (Inr r) \<Rightarrow>
          if \<not> ok r then Some (Inl (throw_not_ok r))
          else (case r_blob r of
                  Inl e \<Rightarrow> Some (Inl (JsError e))
                | Inr b \<Rightarrow> Some (Inr b)))"

subsection \<open>The dashboard page (src/pages/Dashboard.tsx)\<close>

text \<open>
  \<^verbatim>\<open>await Promise.all([p, q])\<close> on two promises given by what they settle to: the pair
  of the values when both resolve, and otherwise the rejection that comes first in time.
  Which of two rejections comes first is the parameter \<open>first\<close>.
\<close>

datatype earlier = First | Second

definition Promise_all ::
  "earlier \<Rightarrow> (thrown + 'a) option \<Rightarrow> (thrown + 'b) option \<Rightarrow> (thrown + 'a \<times> 'b) option" where
  "Promise_all first p q =
     (case (p, q) of
        (Some (Inr a), Some (Inr b)) \<Rightarrow> Some (Inr (a, b))
      | (Some (Inl e1), Some (Inl e2)) \<Rightarrow> Some (Inl (if first = First then e1 else e2))
      | (Some (Inl e1), _) \<Rightarrow> Some (Inl e1)
      | (_, Some (Inl e2)) \<Rightarrow> Some (Inl e2)
      | _ \<Rightarrow> None)"

record toast =
  title :: string
  description :: string
  variant :: string

text \<open>The state of the component: the three \<^verbatim>\<open>useState\<close> cells, the toasts shown and
  what went to \<^verbatim>\<open>console.error\<close>.\<close>

record dashboard =
  dashboardData :: "json option"
  modelRisks :: json
  loading :: bool
  toasts :: "toast list"
  console :: "thrown list"

definition initial_dashboard :: dashboard where
  "initial_dashboard =
     \<lparr>dashboardData = None, modelRisks = JArr [], loading = True, toasts = [], console = []\<rparr>"

text \<open>The placeholder summary; \<open>now\<close> is \<^verbatim>\<open>new Date().toISOString()\<close>.\<close>

definition fallbackSummary :: "string \<Rightarrow> json" where
  "fallbackSummary now =
     JObj [(''timestamp'', JStr now),
           (''total_models_audited'', JNum (Finite False 0 1)),
           (''compliant_models'', JNum (Finite False 0 1)),
           (''non_compliant_models'', JNum (Finite False 0 1)),
           (''compliance_rate'', JNum (Finite False 0 1)),
           (''top_bias_source'', JStr ''N/A''),
           (''most_risky_model'', JStr ''N/A''),
           (''audit_status'', JStr ''offline''),
           (''risk_score'', JNum (Finite False 0 1)),
           (''last_audit'', JStr ''N/A''),
           (''pending_actions'', JNum (Finite False 0 1)),
           (''trend'', JStr ''unknown'')]"

definition errorMessage :: "thrown \<Rightarrow> string" where
  "errorMessage error =
     (case error of
        ApiErr a \<Rightarrow> message a
      | JsError e \<Rightarrow> ''Backend API not available - showing offline mode'')"

text \<open>\<^verbatim>\<open>fetchDashboardData\<close>: the state it leaves, \<open>None\<close> while it waits.\<close>

definition fetchDashboardData :: "env \<Rightarrow> earlier \<Rightarrow> string \<Rightarrow> dashboard \<Rightarrow> dashboard option" where
  "fetchDashboardData ev first now st =
     (let st = st\<lparr>loading := True\<rparr> in
      case Promise_all first (getSummary ev) (getModelRisk ev) of
        None \<Rightarrow> None
      | Some (Inr (summaryResponse, modelRiskResponse)) \<Rightarrow>
          Some (st\<lparr>dashboardData := Some summaryResponse,
                   modelRisks := modelRiskResponse,
                   loading := False\<rparr>)
      | Some (Inl error) \<Rightarrow>
          Some (st\<lparr>console := console st @ [error],
                   dashboardData := Some (fallbackSummary now),
                   modelRisks := JArr [],
                   toasts := toasts st @
                     [\<lparr>title = ''API Connection Issue'',
                       description = errorMessage error,
                       variant = ''destructive''\<rparr>],
                   loading := False\<rparr>))"

subsection \<open>The decimal string of an integer\<close>








subsection \<open>The errors of the taxonomy\<close>

abbreviation timeout_error :: api_error where
  "timeout_error \<equiv> new_ApiError ''Request timeout - server may be unavailable'' 0 None"

abbreviation connect_error :: api_error where
  "connect_error \<equiv> new_ApiError ''Network error - cannot connect to server'' 0 None"

abbreviation unavailable_error :: api_error where
  "unavailable_error \<equiv> new_ApiError ''Network error or server unavailable'' 0 None"

subsection \<open>Example environments\<close>

text \<open>A network that gives every request the same reply, and one that tells the
  summary endpoint from the others.\<close>

definition constant_env :: "reply \<Rightarrow> env" where
  "constant_env rep = \<lparr>VITE_API_BASE_URL = None, network = (\<lambda>req. rep)\<rparr>"

definition dashboard_env :: "reply \<Rightarrow> reply \<Rightarrow> env" where
  "dashboard_env summary_reply other_reply =
     \<lparr>VITE_API_BASE_URL = None,
      network = (\<lambda>req. if url req = ''http://localhost:8000/api/v1/dashboard/summary''
                       then summary_reply else other_reply)\<rparr>"

definition json_response :: "nat \<Rightarrow> string \<Rightarrow> json \<Rightarrow> http_response" where
  "json_response code text v =
     \<lparr>r_status = code, r_statusText = text, r_json = Inr v, r_blob = Inr []\<rparr>"

definition SyntaxError :: js_error where
  "SyntaxError =
     \<lparr>e_name = ''SyntaxError'', e_message = ''Unexpected token < in JSON at position 0'',
      e_stack = []\<rparr>"

text \<open>A response whose body is an HTML page or a PDF document, not JSON.\<close>

definition raw_response :: "nat \<Rightarrow> string \<Rightarrow> string \<Rightarrow> http_response" where
  "raw_response code text bytes =
     \<lparr>r_status = code, r_statusText = text, r_json = Inl SyntaxError, r_blob = Inr bytes\<rparr>"

definition failed_to_fetch :: js_error where
  "failed_to_fetch = \<lparr>e_name = ''TypeError'', e_message = ''Failed to fetch'', e_stack = []\<rparr>"

definition summary_body :: json where
  "summary_body =
     JObj [(''timestamp'', JStr ''2025-01-01T00:00:00Z''),
           (''total_models_audited'', JNum (Finite False 12 2)),
           (''compliant_models'', JNum (Finite False 9 1)),
           (''non_compliant_models'', JNum (Finite False 3 1))]"

definition csv :: file_obj where
  "csv = File ''data.csv'' ''hired,gender''"

section \<open>Facts about the model\<close>

subsection \<open>The browser\<close>

lemma fetch_in_time:
  "signal req = Some d \<Longrightarrow> net req = Responds t r \<Longrightarrow> t < d \<Longrightarrow> fetch net req = Some (Inr r)"
  by (simp add: fetch_def)

lemma fetch_with_signal_settles:
  "signal req = Some d \<Longrightarrow> \<exists>out. fetch net req = Some out"
  by (cases "net req") (simp_all add: fetch_def)

lemma fetch_aborted:
  assumes "signal req = Some d"
    and "net req = Pending \<or> (\<exists>t r. net req = Responds t r \<and> d \<le> t)
           \<or> (\<exists>t e. net req = Rejects t e \<and> d \<le> t)"
  shows "fetch net req = Some (Inl AbortError)"
  using assms by (auto simp: fetch_def)

lemma apiRequest_responded:
  assumes "network ev (apiRequest_request ev endpoint options) = Responds t r" and "t < 10000"
  shows "apiRequest_try ev endpoint options =
           (if \<not> ok r then Some (Inl (throw_not_ok r))
            else (case r_json r of Inl e \<Rightarrow> Some (Inl (JsError e)) | Inr v \<Rightarrow> Some (Inr v)))"
proof -
  have "signal (apiRequest_request ev endpoint options) = Some 10000"
    by (simp add: apiRequest_request_def)
  with assms have "fetch (network ev) (apiRequest_request ev endpoint options) = Some (Inr r)"
    by (simp add: fetch_in_time)
  then show ?thesis
    by (simp add: apiRequest_try_def)
qed

lemma apiFormRequest_responded:
  assumes "network ev (apiFormRequest_request ev endpoint formData) = Responds t r" and "t < 30000"
  shows "apiFormRequest_try ev endpoint formData =
           (if \<not> ok r then Some (Inl (throw_not_ok r))
            else (case r_json r of Inl e \<Rightarrow> Some (Inl (JsError e)) | Inr v \<Rightarrow> Some (Inr v)))"
proof -
  have "signal (apiFormRequest_request ev endpoint formData) = Some 30000"
    by (simp add: apiFormRequest_request_def)
  with assms have "fetch (network ev) (apiFormRequest_request ev endpoint formData) = Some (Inr r)"
    by (simp add: fetch_in_time)
  then show ?thesis
    by (simp add: apiFormRequest_try_def)
qed

text \<open>The two \<^verbatim>\<open>catch\<close> blocks are the same text, and the same function.\<close>

lemma catch_blocks_agree: "apiFormRequest_catch x = apiRequest_catch x"
  by (simp add: apiFormRequest_catch_def apiRequest_catch_def)

text \<open>Every call through an executor settles: the timer sees to it.\<close>

lemma apiRequest_settles: "\<exists>out. apiRequest ev endpoint options = Some out"
proof -
  have "signal (apiRequest_request ev endpoint options) = Some 10000"
    by (simp add: apiRequest_request_def)
  then obtain x where "fetch (network ev) (apiRequest_request ev endpoint options) = Some x"
    using fetch_with_signal_settles by blast
  then show ?thesis
    by (simp add: apiRequest_def apiRequest_try_def split: sum.splits)
qed

lemma apiFormRequest_settles: "\<exists>out. apiFormRequest ev endpoint formData = Some out"
proof -
  have "signal (apiFormRequest_request ev endpoint formData) = Some 30000"
    by (simp add: apiFormRequest_request_def)
  then obtain x where "fetch (network ev) (apiFormRequest_request ev endpoint formData) = Some x"
    using fetch_with_signal_settles by blast
  then show ?thesis
    by (simp add: apiFormRequest_def apiFormRequest_try_def split: sum.splits)
qed

subsection \<open>What the executors throw\<close>

lemma apiRequest_catch_forms:
  "\<exists>a. apiRequest_catch x = ApiErr a
     \<and> (x = ApiErr a \<or> a = timeout_error \<or> a = connect_error \<or> a = unavailable_error)"
  by (cases x) (simp_all add: apiRequest_catch_def)

text \<open>Total classification in the two executors: the call settles, with a value or
  with an \<^verbatim>\<open>ApiError\<close> of one of four forms, never with another thrown value.\<close>

lemma catch_transport_forms:
  "\<exists>a. apiRequest_catch (JsError e) = ApiErr a
     \<and> (a = timeout_error \<or> a = connect_error \<or> a = unavailable_error)"
  by (simp add: apiRequest_catch_def)

lemma join_elements_throws: "join_elements xs = Inl e \<Longrightarrow> Inl e \<in> set xs"
  by (induction xs) (auto split: sum.splits)

lemma toString_throws: "toString v = Inl e \<Longrightarrow> e = cannot_convert_error"
proof (induction v rule: toString.induct)
  case (5 xs)
  from 5(2) have "join_elements (map (\<lambda>x. if x = JNull then Inr [] else toString x) xs) = Inl e"
    by simp
  then have "Inl e \<in> set (map (\<lambda>x. if x = JNull then Inr [] else toString x) xs)"
    by (rule join_elements_throws)
  then obtain x where "x \<in> set xs" and "x \<noteq> JNull" and "toString x = Inl e"
    by (auto split: if_splits)
  with 5 show ?case
    by blast
qed (auto split: if_splits)

lemma message_or_throws: "message_or m fallback = Inl e \<Longrightarrow> e = cannot_convert_error"
  by (auto simp: message_or_def toString_throws split: option.splits if_splits)

text \<open>What the failing-status block throws when it does not throw the \<^verbatim>\<open>ApiError\<close>.\<close>

lemma throw_not_ok_JsError:
  "throw_not_ok r = JsError e \<Longrightarrow> e = null_property_error \<or> e = cannot_convert_error"
  by (cases "errorData r")
     (auto simp: throw_not_ok_def message_or_throws split: sum.splits)

lemma catch_throw_not_ok_forms:
  "\<exists>a. apiRequest_catch (throw_not_ok r) = ApiErr a
     \<and> (a = unavailable_error \<or> status a = r_status r \<and> response a = Some (errorData r))"
proof (cases "throw_not_ok r")
  case (ApiErr a)
  then have "status a = r_status r \<and> response a = Some (errorData r)"
    by (auto simp: throw_not_ok_def new_ApiError_def split: sum.splits)
  with ApiErr show ?thesis
    by (simp add: apiRequest_catch_def)
next
  case (JsError e)
  with throw_not_ok_JsError [of r e] show ?thesis
    by (auto simp: apiRequest_catch_def null_property_error_def cannot_convert_error_def)
qed

lemma apiRequest_total:
  "\<exists>out. apiRequest ev endpoint options = Some out
     \<and> (case out of
           Inr v \<Rightarrow> True
         | Inl x \<Rightarrow>
             \<exists>a. x = ApiErr a
               \<and> (a = timeout_error \<or> a = connect_error \<or> a = unavailable_error
                    \<or> (\<exists>r. \<not> ok r \<and> status a = r_status r
                          \<and> response a = Some (errorData r))))"
proof -
  have "signal (apiRequest_request ev endpoint options) = Some 10000"
    by (simp add: apiRequest_request_def)
  then obtain x where x: "fetch (network ev) (apiRequest_request ev endpoint options) = Some x"
    using fetch_with_signal_settles by blast
  show ?thesis
  proof (cases x)
    case (Inl e)
    with x catch_transport_forms [of e] show ?thesis
      by (auto simp: apiRequest_def apiRequest_try_def)
  next
    case (Inr r)
    show ?thesis
    proof (cases "ok r")
      case False
      with x Inr catch_throw_not_ok_forms [of r] show ?thesis
        by (auto simp: apiRequest_def apiRequest_try_def)
    next
      case True
      with x Inr show ?thesis
        using catch_transport_forms
        by (cases "r_json r") (auto simp: apiRequest_def apiRequest_try_def)
    qed
  qed
qed

lemma apiFormRequest_total:
  "\<exists>out. apiFormRequest ev endpoint formData = Some out
     \<and> (case out of
           Inr v \<Rightarrow> True
         | Inl x \<Rightarrow>
             \<exists>a. x = ApiErr a
               \<and> (a = timeout_error \<or> a = connect_error \<or> a = unavailable_error
                    \<or> (\<exists>r. \<not> ok r \<and> status a = r_status r
                          \<and> response a = Some (errorData r))))"
proof -
  have "signal (apiFormRequest_request ev endpoint formData) = Some 30000"
    by (simp add: apiFormRequest_request_def)
  then obtain x where x: "fetch (network ev) (apiFormRequest_request ev endpoint formData) = Some x"
    using fetch_with_signal_settles by blast
  show ?thesis
  proof (cases x)
    case (Inl e)
    with x catch_transport_forms [of e] show ?thesis
      by (auto simp: apiFormRequest_def apiFormRequest_try_def catch_blocks_agree)
  next
    case (Inr r)
    show ?thesis
    proof (cases "ok r")
      case False
      with x Inr catch_throw_not_ok_forms [of r] show ?thesis
        by (auto simp: apiFormRequest_def apiFormRequest_try_def catch_blocks_agree)
    next
      case True
      with x Inr show ?thesis
        using catch_transport_forms
        by (cases "r_json r")
           (auto simp: apiFormRequest_def apiFormRequest_try_def catch_blocks_agree)
    qed
  qed
qed

text \<open>A connection refused before the timer fires, reported as browsers do (a
  \<^verbatim>\<open>TypeError\<close> whose message mentions \<^verbatim>\<open>fetch\<close>), in the two executors.\<close>

lemma apiRequest_refused:
  assumes "network ev (apiRequest_request ev endpoint options) = Rejects t e" and "t < 10000"
    and "e_name e = ''TypeError''" and "includes_str (e_message e) ''fetch''"
  shows "apiRequest ev endpoint options = Some (Inl (ApiErr connect_error))"
  using assms
  by (simp add: apiRequest_def apiRequest_try_def apiRequest_request_def fetch_def
        apiRequest_catch_def)

lemma apiFormRequest_refused:
  assumes "network ev (apiFormRequest_request ev endpoint formData) = Rejects t e" and "t < 30000"
    and "e_name e = ''TypeError''" and "includes_str (e_message e) ''fetch''"
  shows "apiFormRequest ev endpoint formData = Some (Inl (ApiErr connect_error))"
  using assms
  by (simp add: apiFormRequest_def apiFormRequest_try_def apiFormRequest_request_def fetch_def
        apiFormRequest_catch_def)

text \<open>The deadline of the two executors: what has not arrived when the timer fires
  (10 s, 30 s) is a timeout, whatever arrives later.\<close>

lemma apiRequest_deadline:
  assumes "network ev (apiRequest_request ev endpoint options) = Pending
         \<or> (\<exists>t r. network ev (apiRequest_request ev endpoint options) = Responds t r \<and> 10000 \<le> t)
         \<or> (\<exists>t e. network ev (apiRequest_request ev endpoint options) = Rejects t e \<and> 10000 \<le> t)"
  shows "apiRequest ev endpoint options = Some (Inl (ApiErr timeout_error))"
proof -
  have "signal (apiRequest_request ev endpoint options) = Some 10000"
    by (simp add: apiRequest_request_def)
  then have "fetch (network ev) (apiRequest_request ev endpoint options) = Some (Inl AbortError)"
    using assms by (rule fetch_aborted)
  then show ?thesis
    by (simp add: apiRequest_def apiRequest_try_def apiRequest_catch_def AbortError_def)
qed

lemma apiFormRequest_deadline:
  assumes "network ev (apiFormRequest_request ev endpoint formData) = Pending
         \<or> (\<exists>t r. network ev (apiFormRequest_request ev endpoint formData) = Responds t r
               \<and> 30000 \<le> t)
         \<or> (\<exists>t e. network ev (apiFormRequest_request ev endpoint formData) = Rejects t e
               \<and> 30000 \<le> t)"
  shows "apiFormRequest ev endpoint formData = Some (Inl (ApiErr timeout_error))"
proof -
  have "signal (apiFormRequest_request ev endpoint formData) = Some 30000"
    by (simp add: apiFormRequest_request_def)
  then have "fetch (network ev) (apiFormRequest_request ev endpoint formData) = Some (Inl AbortError)"
    using assms by (rule fetch_aborted)
  then show ?thesis
    by (simp add: apiFormRequest_def apiFormRequest_try_def apiFormRequest_catch_def AbortError_def)
qed

text \<open>A failing status whose \<^verbatim>\<open>ApiError\<close> gets built (the decoded body is not
  \<^verbatim>\<open>null\<close> and its message converts to a string): the error carries the status of the
  response and the decoded body, the empty object when the body is not JSON.\<close>

lemma errorData_not_json: "r_json r = Inl e \<Longrightarrow> errorData r = JObj []"
  by (simp add: errorData_def)

lemma throw_not_ok_ApiError:
  assumes "get_message (errorData r) = Inr m"
    and "message_or m (''HTTP '' @ string_of_nat (r_status r) @ '': '' @ r_statusText r) = Inr msg"
  shows "throw_not_ok r =
           ApiErr \<lparr>message = msg, status = r_status r, response = Some (errorData r)\<rparr>"
  using assms by (simp add: throw_not_ok_def new_ApiError_def)

lemma apiRequest_failing_status:
  assumes "network ev (apiRequest_request ev endpoint options) = Responds t r" and "t < 10000"
    and "\<not> ok r" and "get_message (errorData r) = Inr m"
    and "message_or m (''HTTP '' @ string_of_nat (r_status r) @ '': '' @ r_statusText r) = Inr msg"
  shows "apiRequest ev endpoint options =
           Some (Inl (ApiErr \<lparr>message = msg, status = r_status r,
                             response = Some (errorData r)\<rparr>))"
  using apiRequest_responded [OF assms(1,2)] assms(3) throw_not_ok_ApiError [OF assms(4,5)]
  by (simp add: apiRequest_def apiRequest_catch_def)

lemma apiFormRequest_failing_status:
  assumes "network ev (apiFormRequest_request ev endpoint formData) = Responds t r" and "t < 30000"
    and "\<not> ok r" and "get_message (errorData r) = Inr m"
    and "message_or m (''HTTP '' @ string_of_nat (r_status r) @ '': '' @ r_statusText r) = Inr msg"
  shows "apiFormRequest ev endpoint formData =
           Some (Inl (ApiErr \<lparr>message = msg, status = r_status r,
                             response = Some (errorData r)\<rparr>))"
  using apiFormRequest_responded [OF assms(1,2)] assms(3) throw_not_ok_ApiError [OF assms(4,5)]
  by (simp add: apiFormRequest_def apiFormRequest_catch_def)

text \<open>\<^verbatim>\<open>generateReport\<close> has the same block, and no deadline to meet.\<close>

lemma generateReport_failing_status:
  assumes "network ev (generateReport_request ev
             (generateReport_formData f modelName modelVersion targetVariable sensitiveAttribute
                privilegedGroup unprivilegedGroup role)) = Responds t r"
    and "\<not> ok r" and "get_message (errorData r) = Inr m"
    and "message_or m (''HTTP '' @ string_of_nat (r_status r) @ '': '' @ r_statusText r) = Inr msg"
  shows "generateReport ev f modelName modelVersion targetVariable sensitiveAttribute
               privilegedGroup unprivilegedGroup role =
           Some (Inl (ApiErr \<lparr>message = msg, status = r_status r,
                             response = Some (errorData r)\<rparr>))"
  using assms(1,2) throw_not_ok_ApiError [OF assms(3,4)]
  by (simp add: generateReport_def generateReport_request_def fetch_def)

text \<open>When the block throws something else (the body is \<^verbatim>\<open>null\<close>, or the message is
  an object or array that does not convert to a string), the executors end with the
  generic status-0 error.\<close>

lemma apiRequest_failing_status_lost:
  assumes "network ev (apiRequest_request ev endpoint options) = Responds t r" and "t < 10000"
    and "\<not> ok r" and "throw_not_ok r = JsError e"
  shows "apiRequest ev endpoint options = Some (Inl (ApiErr unavailable_error))"
  using apiRequest_responded [OF assms(1,2)] assms(3,4) throw_not_ok_JsError [OF assms(4)]
  by (auto simp: apiRequest_def apiRequest_catch_def null_property_error_def
        cannot_convert_error_def)

text \<open>The message of a truthy field is the field converted to a string; a string is
  its own conversion.\<close>

lemma message_or_truthy: "truthy v \<Longrightarrow> message_or (Some v) fallback = toString v"
  by (simp add: message_or_def)

lemma message_or_string: "s \<noteq> [] \<Longrightarrow> message_or (Some (JStr s)) fallback = Inr s"
  by (simp add: message_or_def)

lemma message_or_fallback:
  "m = None \<or> (\<exists>v. m = Some v \<and> \<not> truthy v) \<Longrightarrow> message_or m fallback = Inr fallback"
  by (auto simp: message_or_def)

lemma status_400_not_ok: "400 \<le> r_status r \<Longrightarrow> \<not> ok r"
  by (simp add: ok_def)

subsection \<open>Decimal strings\<close>




















lemma string_of_nat_422: "string_of_nat 422 = ''422''"
  by (simp add: string_of_nat.simps digit_def)


section \<open>The properties of the specification\<close>

text \<open>
  C1. The specification lets no operation pass a raw transport exception on to its
  caller. \<^verbatim>\<open>generateReport\<close> does: when the connection is refused (\<^verbatim>\<open>fetch\<close> rejects with the
  \<^verbatim>\<open>TypeError\<close> "Failed to fetch"), it rejects with that \<^verbatim>\<open>TypeError\<close>, where
  \<^verbatim>\<open>detect\<close>, through \<^verbatim>\<open>apiFormRequest\<close>, rejects on the same network with the
  \<^verbatim>\<open>ApiError\<close> "Network error - cannot connect to server" of status 0.
\<close>

theorem generateReport_raw_transport_error:
  "generateReport (constant_env (Rejects 3 failed_to_fetch))
       csv ''m1'' ''1.0'' ''hired'' ''gender'' ''Male'' ''Female'' None
     = Some (Inl (JsError failed_to_fetch))
   \<and> detect (constant_env (Rejects 3 failed_to_fetch))
       csv ''m1'' ''1.0'' ''hired'' ''gender'' ''Male'' ''Female''
     = Some (Inl (ApiErr
         \<lparr>message = ''Network error - cannot connect to server'', status = 0,
          response = None\<rparr>))"
  by (simp add: generateReport_def generateReport_request_def detect_def apiFormRequest_def
        apiFormRequest_try_def apiFormRequest_request_def apiFormRequest_catch_def fetch_def
        constant_env_def failed_to_fetch_def new_ApiError_def)

text \<open>
  C2. The specification gives every call, \<^verbatim>\<open>generateReport\<close> included, a deadline.
  \<^verbatim>\<open>generateReport\<close> has none: a response that arrives after 45 seconds is its result
  (a late success), and when the network never answers the call never settles; on the
  same slow network \<^verbatim>\<open>detect\<close> rejects with the timeout error after 30 seconds.
\<close>

theorem generateReport_no_deadline:
  "generateReport (constant_env (Responds 45000 (raw_response 200 ''OK'' ''%PDF-1.4'')))
       csv ''m1'' ''1.0'' ''hired'' ''gender'' ''Male'' ''Female'' None
     = Some (Inr ''%PDF-1.4'')
   \<and> generateReport (constant_env Pending)
       csv ''m1'' ''1.0'' ''hired'' ''gender'' ''Male'' ''Female'' None
     = None
   \<and> detect (constant_env (Responds 45000 (raw_response 200 ''OK'' ''%PDF-1.4'')))
       csv ''m1'' ''1.0'' ''hired'' ''gender'' ''Male'' ''Female''
     = Some (Inl (ApiErr
         \<lparr>message = ''Request timeout - server may be unavailable'', status = 0,
          response = None\<rparr>))"
  by (simp add: generateReport_def generateReport_request_def detect_def apiFormRequest_def
        apiFormRequest_try_def apiFormRequest_request_def apiFormRequest_catch_def fetch_def
        constant_env_def raw_response_def ok_def AbortError_def new_ApiError_def)

text \<open>
  C3. The specification has a response with status 400 or more always give an
  \<^verbatim>\<open>ApiError\<close> with that status. The code does not when the body is the JSON value
  \<^verbatim>\<open>null\<close>: \<^verbatim>\<open>errorData\<close> is then \<^verbatim>\<open>null\<close>, reading \<^verbatim>\<open>errorData.message\<close> throws a
  \<^verbatim>\<open>TypeError\<close>, and a 500 response ends as the status-0 error "Network error or server
  unavailable" in the two executors and as the raw \<^verbatim>\<open>TypeError\<close> in
  \<^verbatim>\<open>generateReport\<close>.
\<close>

theorem null_error_body_loses_status:
  "getSummary (constant_env (Responds 40 (json_response 500 ''Internal Server Error'' JNull)))
     = Some (Inl (ApiErr
         \<lparr>message = ''Network error or server unavailable'', status = 0, response = None\<rparr>))
   \<and> detect (constant_env (Responds 40 (json_response 500 ''Internal Server Error'' JNull)))
       csv ''m1'' ''1.0'' ''hired'' ''gender'' ''Male'' ''Female''
     = Some (Inl (ApiErr
         \<lparr>message = ''Network error or server unavailable'', status = 0, response = None\<rparr>))
   \<and> generateReport
       (constant_env (Responds 40 (json_response 500 ''Internal Server Error'' JNull)))
       csv ''m1'' ''1.0'' ''hired'' ''gender'' ''Male'' ''Female'' None
     = Some (Inl (JsError null_property_error))"
  by (simp add: getSummary_def apiRequest_def apiRequest_try_def apiRequest_request_def
        apiRequest_catch_def generateReport_def generateReport_request_def detect_def
        apiFormRequest_def apiFormRequest_try_def apiFormRequest_request_def
        apiFormRequest_catch_def fetch_def constant_env_def json_response_def ok_def
        throw_not_ok_def errorData_def null_property_error_def new_ApiError_def)

text \<open>
  C4, as amended. For a failing-status response whose decoded body is not \<^verbatim>\<open>null\<close>, in
  the two executors: the message of the \<^verbatim>\<open>ApiError\<close> is the body's \<^verbatim>\<open>message\<close> field
  when that field is a non-empty string, and it is "HTTP <status>: <status text>" when
  the body has no \<^verbatim>\<open>message\<close> field or the field is falsy (\<^verbatim>\<open>null\<close>, \<^verbatim>\<open>false\<close>, zero
  or the empty string). The fallback is that of \<^verbatim>\<open>||\<close>, not of \<^verbatim>\<open>??\<close>. In both cases
  the error carries the status of the response and the decoded body. (A truthy field
  that is not a string is outside this statement.)
\<close>

theorem failing_status_message:
  assumes "\<not> ok r" and "get_message (errorData r) = Inr m"
    and "network ev (apiRequest_request ev endpoint options) = Responds t r" and "t < 10000"
    and "network ev' (apiFormRequest_request ev' endpoint' formData) = Responds t' r"
    and "t' < 30000"
  shows "(\<forall>s. m = Some (JStr s) \<and> s \<noteq> [] \<longrightarrow>
            apiRequest ev endpoint options =
              Some (Inl (ApiErr \<lparr>message = s, status = r_status r,
                                response = Some (errorData r)\<rparr>))
            \<and> apiFormRequest ev' endpoint' formData =
              Some (Inl (ApiErr \<lparr>message = s, status = r_status r,
                                response = Some (errorData r)\<rparr>)))
       \<and> (m = None \<or> (\<exists>v. m = Some v \<and> \<not> truthy v) \<longrightarrow>
            apiRequest ev endpoint options =
              Some (Inl (ApiErr
                \<lparr>message = ''HTTP '' @ string_of_nat (r_status r) @ '': '' @ r_statusText r,
                 status = r_status r, response = Some (errorData r)\<rparr>))
            \<and> apiFormRequest ev' endpoint' formData =
              Some (Inl (ApiErr
                \<lparr>message = ''HTTP '' @ string_of_nat (r_status r) @ '': '' @ r_statusText r,
                 status = r_status r, response = Some (errorData r)\<rparr>)))"
proof (intro conjI allI impI)
  fix s
  assume "m = Some (JStr s) \<and> s \<noteq> []"
  then have msg: "message_or m (''HTTP '' @ string_of_nat (r_status r) @ '': '' @ r_statusText r)
      = Inr s"
    by (simp add: message_or_string)
  show "apiRequest ev endpoint options =
      Some (Inl (ApiErr \<lparr>message = s, status = r_status r, response = Some (errorData r)\<rparr>))"
    using assms(3,4,1,2) msg by (rule apiRequest_failing_status)
  show "apiFormRequest ev' endpoint' formData =
      Some (Inl (ApiErr \<lparr>message = s, status = r_status r, response = Some (errorData r)\<rparr>))"
    using assms(5,6,1,2) msg by (rule apiFormRequest_failing_status)
next
  assume "m = None \<or> (\<exists>v. m = Some v \<and> \<not> truthy v)"
  then have msg: "message_or m (''HTTP '' @ string_of_nat (r_status r) @ '': '' @ r_statusText r)
      = Inr (''HTTP '' @ string_of_nat (r_status r) @ '': '' @ r_statusText r)"
    by (rule message_or_fallback)
  show "apiRequest ev endpoint options =
      Some (Inl (ApiErr
        \<lparr>message = ''HTTP '' @ string_of_nat (r_status r) @ '': '' @ r_statusText r,
         status = r_status r, response = Some (errorData r)\<rparr>))"
    using assms(3,4,1,2) msg by (rule apiRequest_failing_status)
  show "apiFormRequest ev' endpoint' formData =
      Some (Inl (ApiErr
        \<lparr>message = ''HTTP '' @ string_of_nat (r_status r) @ '': '' @ r_statusText r,
         status = r_status r, response = Some (errorData r)\<rparr>))"
    using assms(5,6,1,2) msg by (rule apiFormRequest_failing_status)
qed

theorem failing_status_message_witness:
  "getSummary (constant_env (Responds 800 (json_response 422 ''Unprocessable Entity''
       (JObj [(''message'', JStr ''missing column'')]))))
     = Some (Inl (ApiErr
         \<lparr>message = ''missing column'', status = 422,
          response = Some (JObj [(''message'', JStr ''missing column'')])\<rparr>))
   \<and> detect (constant_env (Responds 800 (json_response 422 ''Unprocessable Entity''
       (JObj [(''message'', JStr ''missing column'')]))))
       csv ''m1'' ''1.0'' ''hired'' ''gender'' ''Male'' ''Female''
     = Some (Inl (ApiErr
         \<lparr>message = ''missing column'', status = 422,
          response = Some (JObj [(''message'', JStr ''missing column'')])\<rparr>))"
proof -
  let ?r = "json_response 422 ''Unprocessable Entity'' (JObj [(''message'', JStr ''missing column'')])"
  let ?ev = "constant_env (Responds 800 ?r)"
  let ?fd = "detect_formData csv ''m1'' ''1.0'' ''hired'' ''gender'' ''Male'' ''Female''"
  have h: "\<not> ok ?r" "get_message (errorData ?r) = Inr (Some (JStr ''missing column''))"
    "network ?ev (apiRequest_request ?ev ''/api/v1/dashboard/summary'' no_options) = Responds 800 ?r"
    "(800::nat) < 10000"
    "network ?ev (apiFormRequest_request ?ev ''/api/v1/bias/detect'' ?fd) = Responds 800 ?r"
    "(800::nat) < 30000"
    by (simp_all add: json_response_def ok_def errorData_def constant_env_def)
  have r: "r_status ?r = 422" "errorData ?r = JObj [(''message'', JStr ''missing column'')]"
    by (simp_all add: json_response_def errorData_def)
  show ?thesis
    using failing_status_message [OF h]
    by (simp add: getSummary_def detect_def r)
qed

text \<open>The unamended statement of C4 (the field whenever it is present) fails where the
  \<^verbatim>\<open>message\<close> field is present and empty: the field is the empty string, the message of the error is the fallback.\<close>

theorem empty_message_field_counterexample:
  "get_message (JObj [(''message'', JStr [])]) = Inr (Some (JStr []))
   \<and> detect (constant_env (Responds 800 (json_response 422 ''Unprocessable Entity''
       (JObj [(''message'', JStr [])]))))
       csv ''m1'' ''1.0'' ''hired'' ''gender'' ''Male'' ''Female''
     = Some (Inl (ApiErr
         \<lparr>message = ''HTTP 422: Unprocessable Entity'', status = 422,
          response = Some (JObj [(''message'', JStr [])])\<rparr>))
   \<and> detect (constant_env (Responds 800 (json_response 422 ''Unprocessable Entity''
       (JObj [(''message'', JStr [])]))))
       csv ''m1'' ''1.0'' ''hired'' ''gender'' ''Male'' ''Female''
     \<noteq> Some (Inl (ApiErr
         \<lparr>message = [], status = 422, response = Some (JObj [(''message'', JStr [])])\<rparr>))"
  by (simp add: detect_def apiFormRequest_def apiFormRequest_try_def apiFormRequest_request_def
        apiFormRequest_catch_def fetch_def constant_env_def json_response_def ok_def
        throw_not_ok_def errorData_def message_or_def new_ApiError_def string_of_nat_422)




text \<open>
  C6. A JSON-mode call whose response arrives before the deadline with a success status
  and a body that decodes resolves to the decoded body, unchanged. In particular, when
  the summary endpoint answers 200 with an object whose \<^verbatim>\<open>total_models_audited\<close> is 12,
  \<^verbatim>\<open>getSummary\<close> resolves to that object, and its \<^verbatim>\<open>total_models_audited\<close> is 12.
\<close>

theorem json_success_payload:
  assumes "network ev (apiRequest_request ev endpoint options) = Responds t r"
    and "t < 10000" and "ok r" and "r_json r = Inr v"
  shows "apiRequest ev endpoint options = Some (Inr v)"
  using apiRequest_responded [OF assms(1,2)] assms(3,4)
  by (simp add: apiRequest_def)

theorem json_success_payload_witness:
  "getSummary (constant_env (Responds 120 (json_response 200 ''OK'' summary_body)))
     = Some (Inr summary_body)
   \<and> (case summary_body of
         JObj props \<Rightarrow> map_of props ''total_models_audited'' = Some (JNum (Finite False 12 2))
       | _ \<Rightarrow> False)"
proof -
  have "apiRequest (constant_env (Responds 120 (json_response 200 ''OK'' summary_body)))
          ''/api/v1/dashboard/summary'' no_options = Some (Inr summary_body)"
    by (rule json_success_payload [where t = 120 and r = "json_response 200 ''OK'' summary_body"])
       (simp_all add: constant_env_def json_response_def ok_def)
  then show ?thesis
    by (simp add: getSummary_def summary_body_def)
qed

text \<open>
  C7. The dashboard takes the summary and the model-risk list from \<^verbatim>\<open>Promise.all\<close> of
  the two calls. Whichever call settles first: when both resolve, the state gets both
  results; when either rejects, the awaited \<^verbatim>\<open>Promise.all\<close> rejects as a whole and
  neither result reaches the state, which gets the placeholder summary, the empty list
  and a toast. The operation always settles.
\<close>

theorem dashboard_all_or_nothing:
  "(\<exists>st'. fetchDashboardData ev first now st = Some st' \<and> loading st' = False)
   \<and> ((\<exists>s m. Promise_all first (getSummary ev) (getModelRisk ev) = Some (Inr (s, m)))
        = (\<exists>s m. getSummary ev = Some (Inr s) \<and> getModelRisk ev = Some (Inr m)))
   \<and> (getSummary ev = Some (Inr s) \<and> getModelRisk ev = Some (Inr m)
        \<longrightarrow> fetchDashboardData ev first now st =
             Some (st\<lparr>dashboardData := Some s, modelRisks := m, loading := False\<rparr>))
   \<and> ((\<exists>e. getSummary ev = Some (Inl e)) \<or> (\<exists>e. getModelRisk ev = Some (Inl e))
        \<longrightarrow> (\<exists>st'. fetchDashboardData ev first now st = Some st'
               \<and> dashboardData st' = Some (fallbackSummary now)
               \<and> modelRisks st' = JArr []
               \<and> length (toasts st') = Suc (length (toasts st))))"
proof -
  obtain p where p: "getSummary ev = Some p"
    using apiRequest_settles [of ev "''/api/v1/dashboard/summary''" no_options]
    by (auto simp: getSummary_def)
  obtain q where q: "getModelRisk ev = Some q"
    using apiRequest_settles [of ev "''/api/v1/dashboard/model_risk''" no_options]
    by (auto simp: getModelRisk_def)
  show ?thesis
    by (cases p; cases q) (simp_all add: p q fetchDashboardData_def Promise_all_def)
qed

theorem dashboard_all_or_nothing_witness:
  "fetchDashboardData
       (dashboard_env (Responds 120 (json_response 200 ''OK'' summary_body))
          (Rejects 5 failed_to_fetch))
       Second ''2025-01-01T00:00:00Z'' initial_dashboard
     = Some \<lparr>dashboardData = Some (fallbackSummary ''2025-01-01T00:00:00Z''),
             modelRisks = JArr [],
             loading = False,
             toasts = [\<lparr>title = ''API Connection Issue'',
                        description = ''Network error - cannot connect to server'',
                        variant = ''destructive''\<rparr>],
             console = [ApiErr \<lparr>message = ''Network error - cannot connect to server'',
                                status = 0, response = None\<rparr>]\<rparr>
   \<and> getSummary
       (dashboard_env (Responds 120 (json_response 200 ''OK'' summary_body))
          (Rejects 5 failed_to_fetch))
     = Some (Inr summary_body)"
proof -
  let ?ev = "dashboard_env (Responds 120 (json_response 200 ''OK'' summary_body))
          (Rejects 5 failed_to_fetch)"
  have risk: "getModelRisk ?ev = Some (Inl (ApiErr connect_error))"
    by (simp add: getModelRisk_def apiRequest_def apiRequest_try_def apiRequest_request_def
          apiRequest_catch_def fetch_def dashboard_env_def API_BASE_URL_def no_options_def
          failed_to_fetch_def)
  have summary: "getSummary ?ev = Some (Inr summary_body)"
    by (simp add: getSummary_def apiRequest_def apiRequest_try_def apiRequest_request_def
          fetch_def dashboard_env_def API_BASE_URL_def no_options_def json_response_def ok_def)
  from risk have "\<exists>e. getModelRisk ?ev = Some (Inl e)"
    by blast
  with dashboard_all_or_nothing
    [where ev = ?ev and first = Second and now = "''2025-01-01T00:00:00Z''"
       and st = initial_dashboard]
  obtain st' where st':
    "fetchDashboardData ?ev Second ''2025-01-01T00:00:00Z'' initial_dashboard = Some st'"
    "dashboardData st' = Some (fallbackSummary ''2025-01-01T00:00:00Z'')"
    "modelRisks st' = JArr []"
    by blast
  have "fetchDashboardData ?ev Second ''2025-01-01T00:00:00Z'' initial_dashboard
      = Some \<lparr>dashboardData = Some (fallbackSummary ''2025-01-01T00:00:00Z''),
             modelRisks = JArr [],
             loading = False,
             toasts = [\<lparr>title = ''API Connection Issue'',
                        description = ''Network error - cannot connect to server'',
                        variant = ''destructive''\<rparr>],
             console = [ApiErr \<lparr>message = ''Network error - cannot connect to server'',
                                status = 0, response = None\<rparr>]\<rparr>"
    by (simp add: fetchDashboardData_def Promise_all_def risk summary initial_dashboard_def
          errorMessage_def new_ApiError_def)
  with st' summary show ?thesis
    by simp
qed

text \<open>
  C8. Classification is a function of the failure's name and message: two transport
  failures with the same name and the same message (whatever else they carry) are
  classified, by either executor, into \<^verbatim>\<open>ApiError\<close>s with the same status and the same
  message.
\<close>

theorem classification_deterministic:
  assumes "e_name e1 = e_name e2" and "e_message e1 = e_message e2"
  shows "\<exists>a1 a2. apiRequest_catch (JsError e1) = ApiErr a1
           \<and> apiRequest_catch (JsError e2) = ApiErr a2
           \<and> apiFormRequest_catch (JsError e1) = ApiErr a1
           \<and> apiFormRequest_catch (JsError e2) = ApiErr a2
           \<and> status a1 = status a2 \<and> message a1 = message a2"
  using assms by (simp add: apiRequest_catch_def apiFormRequest_catch_def)

theorem classification_deterministic_witness:
  "\<exists>a1 a2. apiRequest_catch (JsError failed_to_fetch) = ApiErr a1
     \<and> apiRequest_catch (JsError (failed_to_fetch\<lparr>e_stack := ''at apiRequest (api.ts:23)''\<rparr>))
         = ApiErr a2
     \<and> status a1 = status a2 \<and> message a1 = message a2
     \<and> status a1 = 0 \<and> message a1 = ''Network error - cannot connect to server''"
proof -
  obtain a1 a2 where
    "apiRequest_catch (JsError failed_to_fetch) = ApiErr a1"
    "apiRequest_catch (JsError (failed_to_fetch\<lparr>e_stack := ''at apiRequest (api.ts:23)''\<rparr>))
       = ApiErr a2"
    "status a1 = status a2" "message a1 = message a2"
    using classification_deterministic
      [of failed_to_fetch "failed_to_fetch\<lparr>e_stack := ''at apiRequest (api.ts:23)''\<rparr>"]
    by auto
  moreover have "apiRequest_catch (JsError failed_to_fetch) = ApiErr connect_error"
    by (simp add: apiRequest_catch_def failed_to_fetch_def)
  ultimately show ?thesis
    by (auto simp: new_ApiError_def)
qed

text \<open>
  C9. In either executor, an \<^verbatim>\<open>ApiError\<close> thrown in the \<^verbatim>\<open>try\<close> block passes the
  \<^verbatim>\<open>catch\<close> block unchanged, so the call rejects with that very error: the one built
  from a failing-status response keeps the status the server sent and is not turned
  into a status-0 error.
\<close>

theorem api_error_rethrown_unchanged:
  "apiRequest_catch (ApiErr a) = ApiErr a
   \<and> apiFormRequest_catch (ApiErr a) = ApiErr a
   \<and> (apiRequest_try ev endpoint options = Some (Inl (ApiErr a))
        \<longrightarrow> apiRequest ev endpoint options = Some (Inl (ApiErr a)))
   \<and> (apiFormRequest_try ev' endpoint' formData = Some (Inl (ApiErr a))
        \<longrightarrow> apiFormRequest ev' endpoint' formData = Some (Inl (ApiErr a)))"
  by (simp add: apiRequest_catch_def apiFormRequest_catch_def apiRequest_def apiFormRequest_def)

theorem api_error_rethrown_unchanged_witness:
  "apiFormRequest_try
       (constant_env (Responds 800 (json_response 422 ''Unprocessable Entity''
          (JObj [(''message'', JStr ''missing column'')]))))
       ''/api/v1/bias/detect'' []
     = Some (Inl (ApiErr
         \<lparr>message = ''missing column'', status = 422,
          response = Some (JObj [(''message'', JStr ''missing column'')])\<rparr>))
   \<and> apiFormRequest
       (constant_env (Responds 800 (json_response 422 ''Unprocessable Entity''
          (JObj [(''message'', JStr ''missing column'')]))))
       ''/api/v1/bias/detect'' []
     = Some (Inl (ApiErr
         \<lparr>message = ''missing column'', status = 422,
          response = Some (JObj [(''message'', JStr ''missing column'')])\<rparr>))"
proof -
  have thrown_in_try: "apiFormRequest_try
       (constant_env (Responds 800 (json_response 422 ''Unprocessable Entity''
          (JObj [(''message'', JStr ''missing column'')]))))
       ''/api/v1/bias/detect'' []
     = Some (Inl (ApiErr
         \<lparr>message = ''missing column'', status = 422,
          response = Some (JObj [(''message'', JStr ''missing column'')])\<rparr>))"
    by (simp add: apiFormRequest_try_def apiFormRequest_request_def fetch_def constant_env_def
          json_response_def ok_def throw_not_ok_def errorData_def message_or_def
          new_ApiError_def)
  with api_error_rethrown_unchanged
      [where a = "\<lparr>message = ''missing column'', status = 422,
          response = Some (JObj [(''message'', JStr ''missing column'')])\<rparr>"
        and ev' = "constant_env (Responds 800 (json_response 422 ''Unprocessable Entity''
          (JObj [(''message'', JStr ''missing column'')])))"
        and endpoint' = "''/api/v1/bias/detect''" and formData = "[]"]
  show ?thesis
    by simp
qed

text \<open>
  C10. In both executors, a response that arrives in time with a success status but
  whose body is not JSON (\<^verbatim>\<open>response.json()\<close> rejects with a \<^verbatim>\<open>SyntaxError\<close>) is not a
  success: the call rejects with the status-0 error "Network error or server
  unavailable".
\<close>

theorem unparseable_success_body:
  assumes "ok r" and "r_json r = Inl e" and "e_name e = ''SyntaxError''"
  shows "(network ev (apiRequest_request ev endpoint options) = Responds t r \<and> t < 10000
            \<longrightarrow> apiRequest ev endpoint options = Some (Inl (ApiErr unavailable_error)))
       \<and> (network ev (apiFormRequest_request ev endpoint' formData) = Responds t' r \<and> t' < 30000
            \<longrightarrow> apiFormRequest ev endpoint' formData = Some (Inl (ApiErr unavailable_error)))"
proof (intro conjI impI)
  assume "network ev (apiRequest_request ev endpoint options) = Responds t r \<and> t < 10000"
  then have "apiRequest_try ev endpoint options = Some (Inl (JsError e))"
    using assms by (simp add: apiRequest_responded)
  with assms(3) show "apiRequest ev endpoint options = Some (Inl (ApiErr unavailable_error))"
    by (simp add: apiRequest_def apiRequest_catch_def)
next
  assume "network ev (apiFormRequest_request ev endpoint' formData) = Responds t' r \<and> t' < 30000"
  then have "apiFormRequest_try ev endpoint' formData = Some (Inl (JsError e))"
    using assms by (simp add: apiFormRequest_responded)
  with assms(3) show "apiFormRequest ev endpoint' formData = Some (Inl (ApiErr unavailable_error))"
    by (simp add: apiFormRequest_def apiFormRequest_catch_def)
qed

theorem unparseable_success_body_witness:
  "getSummary (constant_env (Responds 40 (raw_response 200 ''OK'' ''<html></html>'')))
     = Some (Inl (ApiErr
         \<lparr>message = ''Network error or server unavailable'', status = 0, response = None\<rparr>))
   \<and> detect (constant_env (Responds 40 (raw_response 200 ''OK'' ''<html></html>'')))
        csv ''m1'' ''1.0'' ''hired'' ''gender'' ''Male'' ''Female''
     = Some (Inl (ApiErr
         \<lparr>message = ''Network error or server unavailable'', status = 0, response = None\<rparr>))"
proof -
  have r: "ok (raw_response 200 ''OK'' ''<html></html>'')"
    "r_json (raw_response 200 ''OK'' ''<html></html>'') = Inl SyntaxError"
    "e_name SyntaxError = ''SyntaxError''"
    by (simp_all add: raw_response_def ok_def SyntaxError_def)
  show ?thesis
    using unparseable_success_body [OF r,
        where ev = "constant_env (Responds 40 (raw_response 200 ''OK'' ''<html></html>''))"
          and endpoint = "''/api/v1/dashboard/summary''" and options = no_options and t = 40
          and endpoint' = "''/api/v1/bias/detect''"
          and formData = "detect_formData csv ''m1'' ''1.0'' ''hired'' ''gender'' ''Male'' ''Female''"
          and t' = 40]
    by (simp add: getSummary_def detect_def constant_env_def new_ApiError_def)
qed

end
